theory Spec2Isabelle
  imports Complex_Main "HOL-Library.Log_Nat"
begin

section \<open>Numbers\<close>

text \<open>
  A TypeScript \<open>number\<close> is a binary64 floating-point value. The finite ones are
  rationals, and \<open>+\<close> and \<open>-\<close> give the exact result rounded to the nearest binary64
  value, a tie going to the value whose last mantissa bit is zero. \<open>round64\<close> is that
  rounding: \<open>ilog2 x\<close> is the exponent \<open>e\<close> with \<open>2^e \<le> x < 2^(e+1)\<close>, a mantissa has 53
  bits, and below \<open>2^-1022\<close> the spacing stays \<open>2^-1074\<close>. On rationals the sign of a zero
  is not kept; no comparison sees it.

  Binary64 has no finite value from \<open>2^1024\<close> on. The sums and differences of this
  program stay below: one operand is always a window height, a year or the constant 1,
  too small to move the other operand past the largest finite value.
\<close>

definition ilog2 :: "rat \<Rightarrow> int" where
  "ilog2 x = (if 1 \<le> x then bitlen \<lfloor>x\<rfloor> - 1 else - bitlen (\<lceil>1 / x\<rceil> - 1))"

definition round_half_even :: "rat \<Rightarrow> int" where
  "round_half_even r =
     (let f = \<lfloor>r\<rfloor>; d = r - of_int f
      in if d < 1 / 2 then f
         else if 1 / 2 < d then f + 1
         else if even f then f else f + 1)"

definition round64 :: "rat \<Rightarrow> rat" where
  "round64 x =
     (if x = 0 then 0
      else let e = max (ilog2 \<bar>x\<bar>) (- 1022);
               u = power_int 2 (e - 52)
           in u * of_int (round_half_even (x / u)))"

text \<open>
  The nearest binary64 value of an integer is an integer: up to \<open>2^53\<close> it is the integer
  itself, above that a multiple of the spacing, which is then a power of two.
\<close>

definition num64 :: "int \<Rightarrow> int" where
  "num64 n = \<lfloor>round64 (of_int n)\<rfloor>"


section \<open>Date utilities (src/utils/dateUtils.ts)\<close>

text \<open>
  The module keeps three variables: \<open>cachedYear\<close>, \<open>cachedMonth\<close> (both \<open>number | null\<close>)
  and \<open>lastCheck\<close>. They are a record that every call takes and returns. The two clock
  reads of \<open>getCachedDate\<close> (\<open>Date.now()\<close> and \<open>new Date()\<close>) are inputs: \<open>now_ms\<close> is
  what \<open>Date.now()\<close> returns, \<open>fullYear\<close> and \<open>monthIndex\<close> are what \<open>getFullYear()\<close>
  and the 0-indexed \<open>getMonth()\<close> return. Years and months are integers, and every
  sum and difference of them is a binary64 one: the exact result, rounded by \<open>num64\<close>.
\<close>

record date_cache =
  cachedYear :: "int option"
  cachedMonth :: "int option"
  lastCheck :: int

record clock =
  now_ms :: int
  fullYear :: int
  monthIndex :: int

definition module_cache :: date_cache where
  "module_cache = \<lparr>cachedYear = None, cachedMonth = None, lastCheck = 0\<rparr>"

definition refreshCache :: "clock \<Rightarrow> (int \<times> int) \<times> date_cache" where
  "refreshCache clk =
     (let y = fullYear clk; m = num64 (monthIndex clk + 1)
      in ((y, m), \<lparr>cachedYear = Some y, cachedMonth = Some m, lastCheck = now_ms clk\<rparr>))"

definition getCachedDate :: "date_cache \<Rightarrow> clock \<Rightarrow> (int \<times> int) \<times> date_cache" where
  "getCachedDate c clk =
     (case cachedYear c of
        None \<Rightarrow> refreshCache clk
      | Some y \<Rightarrow>
          (case cachedMonth c of
             None \<Rightarrow> refreshCache clk
           | Some m \<Rightarrow>
               if num64 (now_ms clk - lastCheck c) < 60000 then ((y, m), c)
               else refreshCache clk))"

text \<open>
  \<open>startMonth\<close> has the default value 1: the argument is optional, \<open>None\<close> when the
  caller leaves it out.
\<close>

definition calculateYearsOfExperience ::
  "date_cache \<Rightarrow> clock \<Rightarrow> int \<Rightarrow> int option \<Rightarrow> int \<times> date_cache" where
  "calculateYearsOfExperience c clk startYear startMonthArg =
     (let startMonth = (case startMonthArg of None \<Rightarrow> 1 | Some m \<Rightarrow> m);
          ((currentYear, currentMonth), c') = getCachedDate c clk;
          years = num64 (currentYear - startYear);
          years = (if currentMonth < startMonth then num64 (years - 1) else years)
      in (max 0 years, c'))"

definition getCurrentYear :: "date_cache \<Rightarrow> clock \<Rightarrow> int \<times> date_cache" where
  "getCurrentYear c clk = (fst (fst (getCachedDate c clk)), snd (getCachedDate c clk))"


section \<open>The single-page portfolio component (SinglePagePortfolio)\<close>

text \<open>
  Two versions of the component are in the repository. Their scroll tracking
  (\<open>handleScroll\<close>, \<open>throttledScroll\<close>, the effect's cleanup) and \<open>scrollToSection\<close> are the
  same statements; they differ in the list of section ids, and only one of them fetches
  articles. The functions below take the section list as an argument.

  A string is a \<open>char list\<close>, one \<open>char\<close> for each code unit that \<open>length\<close> and
  \<open>substring\<close> count.
\<close>

subsection \<open>The browser as the component sees it\<close>

text \<open>
  The browser declares \<open>offsetTop\<close> and \<open>offsetHeight\<close> of an element and
  \<open>innerHeight\<close> of the window as \<open>long\<close>: they are integers of 32 bits, so their
  sum, the half of one and the difference with 80 are binary64 values and need no
  rounding. \<open>scrollY\<close> is declared \<open>double\<close>: a finite binary64 value, which need not
  be an integer.
\<close>

record element =
  offsetTop :: int
  offsetHeight :: int

text \<open>\<open>getElementById\<close> is \<open>document.getElementById\<close>: \<open>None\<close> for \<open>null\<close>.\<close>

record window_env =
  scrollY :: rat
  innerHeight :: int
  getElementById :: "string \<Rightarrow> element option"

datatype js_error = TypeError string | SyntaxError string

datatype scroll_behavior = Smooth

datatype effect =
    ScrollTo int scroll_behavior
  | HttpGet string
  | ConsoleError string js_error

subsection \<open>Articles\<close>

record article =
  title :: string
  link :: string
  pubDate :: string
  description :: string
  thumbnail :: string
  categories :: "string list"

text \<open>
  An item of the feed, with the type the source declares for the argument of the mapping
  function. \<open>thumbnail\<close> and \<open>categories\<close> are optional because the source replaces a
  missing one (\<open>item.thumbnail || ''\<close>, \<open>item.categories || []\<close>).
\<close>

record feed_item =
  item_title :: string
  item_link :: string
  item_pubDate :: string
  item_description :: string
  item_thumbnail :: "string option"
  item_categories :: "string list option"

record feed_data =
  status :: string
  items :: "feed_item list option"

text \<open>
  What the two awaited calls give: \<open>fetch\<close> rejects, \<open>response.json()\<close> rejects, or the
  body parses to a value.
\<close>

datatype fetch_result =
    Rejected js_error
  | Unparsable js_error
  | Parsed feed_data

subsection \<open>Component state\<close>

text \<open>
  The five \<open>useState\<close> cells, the variable \<open>ticking\<close> of the scroll effect's closure,
  what the effect has registered with the browser (whether \<open>throttledScroll\<close> is a listener
  of \<open>scroll\<close>, and how many callbacks it has passed to \<open>requestAnimationFrame\<close> that have
  not run yet), and whether React still has the component mounted.
\<close>

record page =
  activeSection :: string
  showBackToTop :: bool
  mobileMenuOpen :: bool
  articles :: "article list"
  articlesLoading :: bool
  ticking :: bool
  scrollListener :: bool
  frameRequests :: nat
  mounted :: bool

definition mount :: page where
  "mount = \<lparr>activeSection = ''home'', showBackToTop = False, mobileMenuOpen = False,
            articles = [], articlesLoading = True,
            ticking = False, scrollListener = True, frameRequests = 0, mounted = True\<rparr>"

definition sections_story :: "string list" where
  "sections_story = [''home'', ''about'', ''journey'', ''works'', ''services'', ''articles'', ''contact'']"

definition sections_classic :: "string list" where
  "sections_classic = [''home'', ''about'', ''experience'', ''education'', ''projects'', ''services'', ''contact'']"

text \<open>The pair the navigation reads: the active section and the back-to-top flag.\<close>

definition tracker_state :: "page \<Rightarrow> string \<times> bool" where
  "tracker_state st = (activeSection st, showBackToTop st)"

subsection \<open>handleScroll\<close>

text \<open>
  \<open>handleScroll\<close> is modelled as the state its setter calls ask for. The \<open>for\<close> loop over
  the sections: a section with no element is skipped, the first section whose extent holds
  \<open>scrollPosition\<close> is stored and ends the loop (\<open>break\<close>). \<open>scrollPosition\<close> is the
  binary64 sum of \<open>scrollY\<close> and half the window height.
\<close>

fun scan_sections :: "window_env \<Rightarrow> rat \<Rightarrow> string list \<Rightarrow> page \<Rightarrow> page" where
  "scan_sections w scrollPosition [] st = st"
| "scan_sections w scrollPosition (section # rest) st =
     (case getElementById w section of
        None \<Rightarrow> scan_sections w scrollPosition rest st
      | Some el \<Rightarrow>
          if scrollPosition \<ge> of_int (offsetTop el)
             \<and> scrollPosition < of_int (offsetTop el + offsetHeight el)
          then st\<lparr>activeSection := section\<rparr>
          else scan_sections w scrollPosition rest st)"

definition handleScroll :: "string list \<Rightarrow> window_env \<Rightarrow> page \<Rightarrow> page" where
  "handleScroll sections w st =
     (let scrollPosition = round64 (scrollY w + of_int (innerHeight w) / 2);
          st1 = st\<lparr>showBackToTop := (scrollY w > 300)\<rparr>
      in scan_sections w scrollPosition sections st1)"

subsection \<open>The throttle, the effect's cleanup and unmounting\<close>

definition throttledScroll :: "page \<Rightarrow> page" where
  "throttledScroll st =
     (if \<not> ticking st
      then st\<lparr>frameRequests := frameRequests st + 1, ticking := True\<rparr>
      else st)"

text \<open>
  React stores what a handler's setter calls ask for while the component is mounted. Once
  the component has unmounted, React discards such calls: they change nothing.
\<close>

definition react_update :: "page \<Rightarrow> page \<Rightarrow> page" where
  "react_update st requested = (if mounted st then requested else st)"

text \<open>
  The function passed to \<open>requestAnimationFrame\<close>: it calls \<open>handleScroll\<close> and then
  clears \<open>ticking\<close>, a variable of the closure and no cell of React.
\<close>

definition frame_callback :: "string list \<Rightarrow> window_env \<Rightarrow> page \<Rightarrow> page" where
  "frame_callback sections w st =
     (react_update st (handleScroll sections w st))\<lparr>ticking := False\<rparr>"

text \<open>The function the effect returns: it removes the listener and does nothing else.\<close>

definition cleanup :: "page \<Rightarrow> page" where
  "cleanup st = st\<lparr>scrollListener := False\<rparr>"

text \<open>
  The effect depends on \<open>sections\<close> alone, which is memoised with no dependency and never
  changes, so React runs the cleanup once: when the component unmounts.
\<close>

definition unmount :: "page \<Rightarrow> page" where
  "unmount st = (cleanup st)\<lparr>mounted := False\<rparr>"

text \<open>
  The browser's side. A \<open>scroll\<close> event calls the listener if it is registered. An animation
  frame runs every callback requested before it, with the window as it is then.
\<close>

definition dispatch_scroll :: "page \<Rightarrow> page" where
  "dispatch_scroll st = (if scrollListener st then throttledScroll st else st)"

definition animation_frame :: "string list \<Rightarrow> window_env \<Rightarrow> page \<Rightarrow> page" where
  "animation_frame sections w st =
     (frame_callback sections w ^^ frameRequests st) (st\<lparr>frameRequests := 0\<rparr>)"

subsection \<open>scrollToSection\<close>

text \<open>
  A handler returns the exception it lets escape (\<open>None\<close> when it returns normally), the
  state, and the commands it gave to the browser, in order.
\<close>

type_synonym handler_result = "js_error option \<times> page \<times> effect list"

definition scrollToSection :: "window_env \<Rightarrow> string \<Rightarrow> page \<Rightarrow> handler_result" where
  "scrollToSection w sectionId st =
     (case getElementById w sectionId of
        Some el \<Rightarrow> (None, st, [ScrollTo (offsetTop el - 80) Smooth])
      | None \<Rightarrow> (None, st, []))"

text \<open>
  \<open>handleNavClick\<close> gets an index into the section list in one version and the item's
  name, which it puts in lower case, in the other; the argument here is the section id
  that either passes to \<open>scrollToSection\<close>.
\<close>

definition handleNavClick :: "window_env \<Rightarrow> string \<Rightarrow> page \<Rightarrow> handler_result" where
  "handleNavClick w sectionId st =
     (case scrollToSection w sectionId st of
        (thrown, st1, fx) \<Rightarrow> (thrown, st1\<lparr>mobileMenuOpen := False\<rparr>, fx))"

subsection \<open>fetchArticles\<close>

text \<open>
  \<open>replace(/<[^>]*>/g, '')\<close>: at a \<open><\<close> the pattern takes every code unit that is not
  \<open>>\<close> and then needs a \<open>>\<close>. If one follows, the text up to and including the first
  \<open>>\<close> is removed; if none follows, there is no match here and the \<open><\<close> stays.
\<close>

function strip_tags :: "string \<Rightarrow> string" where
  "strip_tags [] = []"
| "strip_tags (c # cs) =
     (if c = CHR ''<''
      then (case dropWhile (\<lambda>x. x \<noteq> CHR ''>'') cs of
              [] \<Rightarrow> c # strip_tags cs
            | _ # after \<Rightarrow> strip_tags after)
      else c # strip_tags cs)"
  by pat_completeness auto
termination
proof (relation "measure length")
  fix c :: char and cs x after
  assume "dropWhile (\<lambda>x. x \<noteq> CHR ''>'') cs = x # after"
  then have "length (x # after) \<le> length cs"
    using length_dropWhile_le [of "\<lambda>x. x \<noteq> CHR ''>''" cs] by simp
  then show "(after, c # cs) \<in> measure length" by simp
qed simp_all

definition substring :: "string \<Rightarrow> nat \<Rightarrow> nat \<Rightarrow> string" where
  "substring s start end = take (max start end - min start end) (drop (min start end) s)"

definition formatArticle :: "feed_item \<Rightarrow> article" where
  "formatArticle item =
     \<lparr>title = item_title item,
      link = item_link item,
      pubDate = item_pubDate item,
      description = substring (strip_tags (item_description item)) 0 150 @ ''...'',
      thumbnail = (case item_thumbnail item of None \<Rightarrow> '''' | Some t \<Rightarrow> t),
      categories = (case item_categories item of None \<Rightarrow> [] | Some cs \<Rightarrow> cs)\<rparr>"

definition feed_url :: string where
  "feed_url = ''https://api.rss2json.com/v1/api.json?rss_url=https://medium.com/feed/@dino.cosic''"

text \<open>
  The \<open>try\<close> block: the state it leaves, the error it throws if any, the commands it gave.
\<close>

definition fetchArticles_try :: "fetch_result \<Rightarrow> page \<Rightarrow> handler_result" where
  "fetchArticles_try r st =
     (let st1 = st\<lparr>articlesLoading := True\<rparr>; fx = [HttpGet feed_url]
      in case r of
           Rejected e \<Rightarrow> (Some e, st1, fx)
         | Unparsable e \<Rightarrow> (Some e, st1, fx)
         | Parsed data \<Rightarrow>
             (if status data = ''ok''
              then (case items data of
                      Some its \<Rightarrow> (None, st1\<lparr>articles := map formatArticle (take 6 its)\<rparr>, fx)
                    | None \<Rightarrow> (None, st1, fx))
              else (None, st1, fx)))"

text \<open>The \<open>catch\<close> clause logs and returns normally; the \<open>finally\<close> clause clears the flag.\<close>

definition fetchArticles_catch :: "js_error \<Rightarrow> page \<Rightarrow> handler_result" where
  "fetchArticles_catch e st = (None, st, [ConsoleError ''Failed to fetch articles:'' e])"

definition fetchArticles_finally :: "page \<Rightarrow> page" where
  "fetchArticles_finally st = st\<lparr>articlesLoading := False\<rparr>"

definition fetchArticles :: "fetch_result \<Rightarrow> page \<Rightarrow> handler_result" where
  "fetchArticles r st =
     (case fetchArticles_try r st of
        (None, st1, fx) \<Rightarrow> (None, fetchArticles_finally st1, fx)
      | (Some e, st1, fx) \<Rightarrow>
          (case fetchArticles_catch e st1 of
             (thrown, st2, fx2) \<Rightarrow> (thrown, fetchArticles_finally st2, fx @ fx2)))"

text \<open>What the articles grid renders, by the two conditions of the JSX.\<close>

datatype articles_view = LoadingSpinner | ArticleCards "article list" | ComingSoon

definition articles_grid :: "page \<Rightarrow> articles_view" where
  "articles_grid st =
     (if articlesLoading st then LoadingSpinner
      else if length (articles st) > 0 then ArticleCards (articles st)
      else ComingSoon)"

subsection \<open>Events\<close>

text \<open>
  Everything that runs code of the component after it has mounted. \<open>AnimationFrame\<close>
  carries the window as it is when the frame's callbacks run. The handlers of clicks and
  of the feed are, like \<open>handleScroll\<close>, the state their setter calls ask for.
\<close>

datatype event =
    ScrollEvent
  | AnimationFrame window_env
  | Unmount
  | NavClick window_env string
  | ToggleMenu
  | FeedArrived fetch_result

fun step :: "string list \<Rightarrow> page \<Rightarrow> event \<Rightarrow> page" where
  "step sections st ScrollEvent = dispatch_scroll st"
| "step sections st (AnimationFrame w) = animation_frame sections w st"
| "step sections st Unmount = unmount st"
| "step sections st (NavClick w sectionId) =
     react_update st (fst (snd (handleNavClick w sectionId st)))"
| "step sections st ToggleMenu =
     react_update st (st\<lparr>mobileMenuOpen := \<not> mobileMenuOpen st\<rparr>)"
| "step sections st (FeedArrived r) = react_update st (fst (snd (fetchArticles r st)))"

definition run :: "string list \<Rightarrow> page \<Rightarrow> event list \<Rightarrow> page" where
  "run sections st evs = foldl (step sections) st evs"

subsection \<open>The probe position and section extents, as the specification words them\<close>

text \<open>
  The probe position as a sum of real numbers, and the one the program has: the same sum
  in binary64. A section's extent holds a position when the section has an element and
  the position is in \<open>[offsetTop, offsetTop + offsetHeight)\<close>.
\<close>

definition probePosition :: "window_env \<Rightarrow> rat" where
  "probePosition w = scrollY w + of_int (innerHeight w) / 2"

definition computedProbe :: "window_env \<Rightarrow> rat" where
  "computedProbe w = round64 (probePosition w)"

definition extent_holds :: "window_env \<Rightarrow> rat \<Rightarrow> string \<Rightarrow> bool" where
  "extent_holds w p s =
     (case getElementById w s of
        None \<Rightarrow> False
      | Some el \<Rightarrow> of_int (offsetTop el) \<le> p \<and> p < of_int (offsetTop el + offsetHeight el))"

definition in_extent :: "window_env \<Rightarrow> string \<Rightarrow> bool" where
  "in_extent w s = extent_holds w (computedProbe w) s"

definition in_extent_exact :: "window_env \<Rightarrow> string \<Rightarrow> bool" where
  "in_extent_exact w s = extent_holds w (probePosition w) s"

text \<open>
  The layout of the specification's scenario: \<open>home\<close> at [0, 800), \<open>about\<close> at
  [800, 1600), \<open>contact\<close> at [1600, 2400); no other element.
\<close>

definition scenario_document :: "string \<Rightarrow> element option" where
  "scenario_document = map_of
     [(''home'', \<lparr>offsetTop = 0, offsetHeight = 800\<rparr>),
      (''about'', \<lparr>offsetTop = 800, offsetHeight = 800\<rparr>),
      (''contact'', \<lparr>offsetTop = 1600, offsetHeight = 800\<rparr>)]"

definition scenario_window :: "rat \<Rightarrow> window_env" where
  "scenario_window y = \<lparr>scrollY = y, innerHeight = 800, getElementById = scenario_document\<rparr>"

text \<open>A layout with a gap: \<open>home\<close> at [0, 800) and \<open>contact\<close> at [1600, 2400).\<close>

definition gap_document :: "string \<Rightarrow> element option" where
  "gap_document = map_of
     [(''home'', \<lparr>offsetTop = 0, offsetHeight = 800\<rparr>),
      (''contact'', \<lparr>offsetTop = 1600, offsetHeight = 800\<rparr>)]"

definition gap_window :: "rat \<Rightarrow> window_env" where
  "gap_window y = \<lparr>scrollY = y, innerHeight = 1600, getElementById = gap_document\<rparr>"

subsection \<open>The throttle's invariant\<close>

text \<open>
  A callback is waiting for the next frame exactly when \<open>ticking\<close> is set, and then it is
  the only one.
\<close>

definition throttle_inv :: "page \<Rightarrow> bool" where
  "throttle_inv st = (frameRequests st = (if ticking st then 1 else 0))"

section \<open>Properties of the rounding\<close>

lemma round_half_even_of_int: "round_half_even (of_int k) = k"
  by (simp add: round_half_even_def)

text \<open>A value that is an integer multiple of the spacing at its exponent is not moved.\<close>

lemma round64_scaled:
  assumes "x \<noteq> 0" and "max (ilog2 \<bar>x\<bar>) (- 1022) = 52 - int k"
    and "x * 2 ^ k = of_int j"
  shows "round64 x = x"
proof -
  have u: "power_int (2::rat) (- int k) = inverse (2 ^ k)"
    by (simp add: power_int_minus)
  have "x / inverse (2 ^ k) = of_int j"
    using assms(3) by (simp add: field_simps)
  then have "round64 x = inverse (2 ^ k) * of_int j"
    using assms(1,2) by (simp add: round64_def Let_def u round_half_even_of_int)
  also have "\<dots> = x"
    using assms(3) [symmetric] by simp
  finally show ?thesis .
qed

lemma round64_of_int_small:
  assumes "\<bar>n\<bar> < 2 ^ 53"
  shows "round64 (of_int n) = of_int n"
proof (cases "n = 0")
  case True
  then show ?thesis by (simp add: round64_def)
next
  case False
  define m where "m = \<bar>n\<bar>"
  define e where "e = bitlen m - 1"
  have m: "1 \<le> m" "m < 2 ^ 53"
    using False assms by (simp_all add: m_def)
  have "1 \<le> bitlen m"
    using m(1) by (simp add: bitlen_ge_iff_power)
  then have e0: "0 \<le> e" by (simp add: e_def)
  have "bitlen m \<le> 53"
    using m(2) by (simp add: bitlen_le_iff_power)
  then have e52: "e \<le> 52" by (simp add: e_def)
  have abs: "\<bar>of_int n :: rat\<bar> = of_int m"
    by (simp add: m_def)
  have il: "ilog2 \<bar>of_int n :: rat\<bar> = e"
    using m(1) by (simp add: abs ilog2_def e_def)
  define k where "k = nat (52 - e)"
  have k: "max (ilog2 \<bar>of_int n :: rat\<bar>) (- 1022) = 52 - int k"
    using e0 e52 by (simp add: il k_def)
  have nz: "(of_int n :: rat) \<noteq> 0" using False by simp
  have sc: "(of_int n :: rat) * 2 ^ k = of_int (n * 2 ^ k)" by simp
  show ?thesis
    by (rule round64_scaled [OF nz k sc])
qed

lemma round64_two_53: "round64 (2 ^ 53) = 2 ^ 53" "round64 (- (2 ^ 53)) = - (2 ^ 53)"
  by code_simp+

lemma round64_of_int_exact:
  assumes "\<bar>n\<bar> \<le> 2 ^ 53"
  shows "round64 (of_int n) = of_int n"
proof (cases "\<bar>n\<bar> < 2 ^ 53")
  case True
  then show ?thesis by (rule round64_of_int_small)
next
  case False
  with assms have "n = 2 ^ 53 \<or> n = - (2 ^ 53)" by linarith
  then show ?thesis
    using round64_two_53 by auto
qed

text \<open>Integers up to \<open>2^53\<close> in magnitude are binary64 values.\<close>

lemma num64_exact: "\<bar>n\<bar> \<le> 2 ^ 53 \<Longrightarrow> num64 n = n"
  by (simp add: num64_def round64_of_int_exact)


section \<open>Properties of handleScroll\<close>

lemma scan_sections_showBackToTop:
  "showBackToTop (scan_sections w p secs st) = showBackToTop st"
  by (induction secs) (auto split: option.splits)

text \<open>The loop writes no cell but \<open>activeSection\<close>.\<close>

lemma scan_sections_frame:
  "\<exists>a. scan_sections w p secs st = st\<lparr>activeSection := a\<rparr>"
proof (induction secs)
  case Nil
  have "st = st\<lparr>activeSection := activeSection st\<rparr>" by simp
  then show ?case by (metis scan_sections.simps(1))
next
  case (Cons s secs)
  then show ?case by (auto split: option.splits)
qed

lemma handleScroll_frame:
  "\<exists>a. handleScroll secs w st = st\<lparr>showBackToTop := (scrollY w > 300), activeSection := a\<rparr>"
  using scan_sections_frame
    [of w "round64 (scrollY w + of_int (innerHeight w) / 2)" secs
       "st\<lparr>showBackToTop := (scrollY w > 300)\<rparr>"]
  by (simp add: handleScroll_def Let_def)

lemma handleScroll_ticking [simp]: "ticking (handleScroll secs w st) = ticking st"
  using handleScroll_frame [of secs w st] by auto

lemma handleScroll_frameRequests [simp]:
  "frameRequests (handleScroll secs w st) = frameRequests st"
  using handleScroll_frame [of secs w st] by auto

lemma handleScroll_scrollListener [simp]:
  "scrollListener (handleScroll secs w st) = scrollListener st"
  using handleScroll_frame [of secs w st] by auto

lemma handleScroll_mounted [simp]: "mounted (handleScroll secs w st) = mounted st"
  using handleScroll_frame [of secs w st] by auto

text \<open>
  The loop is a search: the section it stores is the first one of the list whose extent
  holds the position it is given, and it stores nothing when there is none. The position
  \<open>handleScroll\<close> gives it is the computed probe.
\<close>

lemma scan_sections_find:
  "activeSection (scan_sections w p secs st) =
     (case find (extent_holds w p) secs of None \<Rightarrow> activeSection st | Some s \<Rightarrow> s)"
  by (induction secs) (auto simp: extent_holds_def split: option.splits)

lemma in_extent_eq: "in_extent w = extent_holds w (computedProbe w)"
  by (rule ext) (simp add: in_extent_def)

lemma handleScroll_find:
  "activeSection (handleScroll secs w st) =
     (case find (in_extent w) secs of None \<Rightarrow> activeSection st | Some s \<Rightarrow> s)"
  using scan_sections_find
    [of w "computedProbe w" secs "st\<lparr>showBackToTop := (scrollY w > 300)\<rparr>"]
  by (simp add: handleScroll_def Let_def in_extent_eq computedProbe_def probePosition_def
        split: option.splits)

lemma showBackToTop_after_handleScroll:
  "showBackToTop (handleScroll secs w st) = (scrollY w > 300)"
  by (simp add: handleScroll_def Let_def scan_sections_showBackToTop)

lemma find_in_set: "find P xs = Some x \<Longrightarrow> x \<in> set xs"
  by (auto simp: find_Some_iff)

lemma find_unique:
  assumes "s \<in> set secs" "P s" "\<forall>t\<in>set secs. P t \<longrightarrow> t = s"
  shows "find P secs = Some s"
proof -
  have "find P secs \<noteq> None"
    using assms(1,2) by (auto simp: find_None_iff)
  then obtain t where t: "find P secs = Some t" by blast
  then have "P t" and "t \<in> set secs"
    by (auto simp: find_Some_iff)
  with assms(3) have "t = s" by blast
  with t show ?thesis by simp
qed

lemma handleScroll_activeSection_cases:
  "activeSection (handleScroll secs w st) = activeSection st
   \<or> activeSection (handleScroll secs w st) \<in> set secs"
  by (cases "find (in_extent w) secs") (auto simp: handleScroll_find dest: find_in_set)

text \<open>
  C1, as the claim states it, fails where the sum \<open>scrollY + innerHeight / 2\<close> is not a
  binary64 value. With \<open>scrollY = 400 - 2^-44\<close> and a window 800 high the sum is
  \<open>800 - 2^-44\<close>, which only the extent [0, 800) of \<open>home\<close> holds; the program's sum is
  the nearest binary64 value, 800, and \<open>handleScroll\<close> stores \<open>about\<close>.
\<close>

theorem handleScroll_exact_probe_counterexample:
  "filter (in_extent_exact (scenario_window (400 - 1 / 2 ^ 44))) sections_story = [''home'']
   \<and> activeSection (handleScroll sections_story (scenario_window (400 - 1 / 2 ^ 44)) mount)
       = ''about''"
  by code_simp

text \<open>
  C1, amended. When the probe position as the program computes it, the binary64 sum of
  \<open>scrollY\<close> and half the window height, lies in the extent
  \<open>[offsetTop, offsetTop + offsetHeight)\<close> of exactly one section of the list,
  \<open>handleScroll\<close> sets \<open>activeSection\<close> to that section's id, and that section is the
  first match in the order of the list.
\<close>

theorem handleScroll_unique_section:
  assumes "s \<in> set secs" and "in_extent w s"
    and "\<forall>t\<in>set secs. in_extent w t \<longrightarrow> t = s"
  shows "activeSection (handleScroll secs w st) = s \<and> find (in_extent w) secs = Some s"
  using find_unique [OF assms] by (simp add: handleScroll_find)

theorem handleScroll_unique_section_witness:
  "activeSection (handleScroll sections_story (scenario_window 450) mount) = ''about''"
proof -
  have 1: "''about'' \<in> set sections_story"
    by (simp add: sections_story_def)
  have 2: "in_extent (scenario_window 450) ''about''"
    by code_simp
  have 3: "\<forall>t\<in>set sections_story. in_extent (scenario_window 450) t \<longrightarrow> t = ''about''"
    by code_simp
  show ?thesis
    using handleScroll_unique_section [OF 1 2 3, of mount] by simp
qed

text \<open>
  C2, as the claim states it, fails in the same way. With \<open>home\<close> at [0, 800),
  \<open>contact\<close> at [1600, 2400), a window 1600 high and \<open>scrollY = 800 - 2^-43\<close> the sum is
  \<open>1600 - 2^-43\<close>, which no extent holds; the program's sum is 1600 and \<open>handleScroll\<close>
  replaces \<open>home\<close> by \<open>contact\<close>.
\<close>

theorem handleScroll_sticky_exact_probe_counterexample:
  "filter (in_extent_exact (gap_window (800 - 1 / 2 ^ 43))) sections_story = []
   \<and> activeSection mount = ''home''
   \<and> activeSection (handleScroll sections_story (gap_window (800 - 1 / 2 ^ 43)) mount)
       = ''contact''"
  by code_simp

text \<open>
  C2, amended. When the probe position as the program computes it, the binary64 sum of
  \<open>scrollY\<close> and half the window height, lies in the extent of no section of the list,
  \<open>handleScroll\<close> leaves \<open>activeSection\<close> as it was: it is neither cleared nor reset.
\<close>

theorem handleScroll_sticky:
  assumes "\<forall>t\<in>set secs. \<not> in_extent w t"
  shows "activeSection (handleScroll secs w st) = activeSection st"
proof -
  have "find (in_extent w) secs = None" using assms by (simp add: find_None_iff)
  then show ?thesis by (simp add: handleScroll_find)
qed

theorem handleScroll_sticky_witness:
  "activeSection (handleScroll sections_story (scenario_window 2100)
                    (mount\<lparr>activeSection := ''about''\<rparr>)) = ''about''"
proof -
  have 1: "\<forall>t\<in>set sections_story. \<not> in_extent (scenario_window 2100) t"
    by code_simp
  show ?thesis
    using handleScroll_sticky [OF 1, of "mount\<lparr>activeSection := ''about''\<rparr>"] by simp
qed

text \<open>
  C8. After \<open>handleScroll\<close>, \<open>showBackToTop\<close> is true exactly when \<open>scrollY > 300\<close>,
  whatever it was before; so it is false at 299 and at 300 and true at 301.
\<close>

theorem handleScroll_showBackToTop:
  "showBackToTop (handleScroll secs w st) = (scrollY w > 300)"
  by (simp add: handleScroll_def Let_def scan_sections_showBackToTop)

theorem handleScroll_showBackToTop_witness:
  "\<not> showBackToTop (handleScroll sections_story (scenario_window 299) mount)
   \<and> \<not> showBackToTop (handleScroll sections_story (scenario_window 300)
                          (mount\<lparr>showBackToTop := True\<rparr>))
   \<and> showBackToTop (handleScroll sections_story (scenario_window 301) mount)"
  using handleScroll_showBackToTop [of sections_story "scenario_window 299" mount]
    handleScroll_showBackToTop
      [of sections_story "scenario_window 300" "mount\<lparr>showBackToTop := True\<rparr>"]
    handleScroll_showBackToTop [of sections_story "scenario_window 301" mount]
  by (simp add: scenario_window_def)


section \<open>Properties of the throttle\<close>

lemma run_Nil [simp]: "run secs st [] = st"
  by (simp add: run_def)

lemma run_Cons [simp]: "run secs st (ev # evs) = run secs (step secs st ev) evs"
  by (simp add: run_def)

lemma throttle_inv_mount: "throttle_inv mount"
  by (simp add: throttle_inv_def mount_def)

lemma throttle_inv_step: "throttle_inv st \<Longrightarrow> throttle_inv (step secs st ev)"
  by (cases ev)
     (auto simp: throttle_inv_def dispatch_scroll_def throttledScroll_def animation_frame_def
        frame_callback_def react_update_def cleanup_def unmount_def handleNavClick_def
        scrollToSection_def fetchArticles_def fetchArticles_try_def fetchArticles_catch_def
        fetchArticles_finally_def Let_def
        split: if_splits option.splits fetch_result.splits prod.splits)

lemma throttle_inv_run: "throttle_inv st \<Longrightarrow> throttle_inv (run secs st evs)"
  by (induction evs arbitrary: st) (auto simp: throttle_inv_step)

lemma dispatch_scroll_idem: "dispatch_scroll (dispatch_scroll st) = dispatch_scroll st"
  by (simp add: dispatch_scroll_def throttledScroll_def)

text \<open>Any number of scroll events in a row does what the first of them does.\<close>

lemma run_scrolls: "run secs st (replicate (Suc n) ScrollEvent) = dispatch_scroll st"
  by (induction n arbitrary: st) (simp_all add: dispatch_scroll_idem)

lemma animation_frame_at_most_one:
  "throttle_inv st \<Longrightarrow>
   animation_frame secs w st =
     (if frameRequests st = 1 then frame_callback secs w (st\<lparr>frameRequests := 0\<rparr>) else st)"
  by (simp add: throttle_inv_def animation_frame_def split: if_splits)

text \<open>
  C3. In any state the mounted component can reach, \<open>n \<ge> 1\<close> scroll events with no
  animation frame between them leave at most one callback requested (exactly one when the
  listener is attached and nothing was pending), run no recomputation themselves, and a
  further scroll event changes nothing: it is dropped. The next animation frame then runs
  the callback, and so \<open>handleScroll\<close>, once if one was requested and not at all
  otherwise.
\<close>

theorem throttledScroll_coalesces:
  assumes "0 < n"
  shows "let before = run secs mount evs;
             st = run secs before (replicate n ScrollEvent)
         in frameRequests st \<le> 1
          \<and> (scrollListener before \<and> \<not> ticking before \<longrightarrow> frameRequests st = 1)
          \<and> tracker_state st = tracker_state before
          \<and> step secs st ScrollEvent = st
          \<and> step secs st (AnimationFrame w) =
              (if frameRequests st = 1
               then frame_callback secs w (st\<lparr>frameRequests := 0\<rparr>) else st)"
proof -
  define before where "before = run secs mount evs"
  define st where "st = run secs before (replicate n ScrollEvent)"
  from assms obtain m where "n = Suc m" by (cases n) auto
  then have st: "st = dispatch_scroll before"
    unfolding st_def by (simp only: run_scrolls)
  have inv: "throttle_inv before"
    unfolding before_def by (rule throttle_inv_run [OF throttle_inv_mount])
  then have inv_st: "throttle_inv st"
    using throttle_inv_step [of before secs ScrollEvent] by (simp add: st)
  have 1: "frameRequests st \<le> 1"
    using inv_st by (simp add: throttle_inv_def)
  have 2: "scrollListener before \<and> \<not> ticking before \<longrightarrow> frameRequests st = 1"
    using inv by (simp add: st throttle_inv_def dispatch_scroll_def throttledScroll_def)
  have 3: "tracker_state st = tracker_state before"
    by (simp add: st tracker_state_def dispatch_scroll_def throttledScroll_def)
  have 4: "step secs st ScrollEvent = st"
    by (simp add: st dispatch_scroll_idem)
  have 5: "step secs st (AnimationFrame w) =
      (if frameRequests st = 1 then frame_callback secs w (st\<lparr>frameRequests := 0\<rparr>) else st)"
    using animation_frame_at_most_one [OF inv_st] by simp
  from 1 2 3 4 5 show ?thesis
    unfolding Let_def before_def [symmetric] st_def [symmetric] by blast
qed

text \<open>Fifty scroll events after mounting request one callback.\<close>

theorem throttledScroll_coalesces_witness:
  "frameRequests (run sections_story mount (replicate 50 ScrollEvent)) = 1
   \<and> step sections_story (run sections_story mount (replicate 50 ScrollEvent)) ScrollEvent
       = run sections_story mount (replicate 50 ScrollEvent)"
proof -
  have pos: "(0::nat) < 50" by simp
  show ?thesis
    using throttledScroll_coalesces [OF pos, of sections_story "[]"]
    by (simp add: Let_def mount_def)
qed


section \<open>Unmounting and a callback that is still pending\<close>

lemma unmounted_frame_callback:
  "\<not> mounted st \<Longrightarrow> frame_callback secs w st = st\<lparr>ticking := False\<rparr>"
  by (simp add: frame_callback_def react_update_def)

lemma unmounted_step:
  "\<not> mounted st \<Longrightarrow>
   \<not> mounted (step secs st ev) \<and> tracker_state (step secs st ev) = tracker_state st"
proof (cases ev)
  case (AnimationFrame w)
  assume un: "\<not> mounted st"
  have "\<not> mounted ((frame_callback secs w ^^ n) s)
        \<and> tracker_state ((frame_callback secs w ^^ n) s) = tracker_state s"
    if "\<not> mounted s" for n s
    using that by (induction n) (simp_all add: unmounted_frame_callback tracker_state_def)
  from this [of "st\<lparr>frameRequests := 0\<rparr>" "frameRequests st"] un AnimationFrame
  show ?thesis by (simp add: animation_frame_def tracker_state_def)
qed (simp_all add: dispatch_scroll_def throttledScroll_def unmount_def cleanup_def
       react_update_def tracker_state_def)

lemma unmounted_run:
  "\<not> mounted st \<Longrightarrow> tracker_state (run secs st evs) = tracker_state st"
proof (induction evs arbitrary: st)
  case Nil
  then show ?case by simp
next
  case (Cons ev evs)
  from unmounted_step [OF Cons.prems, of secs ev] Cons.IH [of "step secs st ev"]
  show ?case by simp
qed

text \<open>
  C5. The cleanup runs when the component unmounts. When a callback requested by
  \<open>throttledScroll\<close> is still pending then, it fires later and runs: it clears
  \<open>ticking\<close>. But React discards the setter calls of its \<open>handleScroll\<close>, so the state
  after the late callback differs from the state before it in nothing else, and the
  active section and the back-to-top flag are the same in both snapshots. Nothing that
  happens after the unmount changes them.
\<close>

theorem late_callback_discarded:
  assumes "frameRequests st = 1"
  shows "let torn = step secs st Unmount;
             late = step secs torn (AnimationFrame w)
         in tracker_state late = tracker_state torn
          \<and> late = torn\<lparr>frameRequests := 0, ticking := False\<rparr>
          \<and> step secs torn ScrollEvent = torn
          \<and> tracker_state (run secs torn evs) = tracker_state torn"
proof -
  define torn where "torn = step secs st Unmount"
  define late where "late = step secs torn (AnimationFrame w)"
  have torn: "torn = st\<lparr>scrollListener := False, mounted := False\<rparr>"
    by (simp add: torn_def unmount_def cleanup_def)
  have un: "\<not> mounted torn"
    by (simp add: torn)
  have 2: "late = torn\<lparr>frameRequests := 0, ticking := False\<rparr>"
    using assms by (simp add: late_def animation_frame_def torn unmounted_frame_callback)
  then have 1: "tracker_state late = tracker_state torn"
    by (simp add: tracker_state_def)
  have 3: "step secs torn ScrollEvent = torn"
    by (simp add: torn dispatch_scroll_def)
  have 4: "tracker_state (run secs torn evs) = tracker_state torn"
    by (rule unmounted_run [OF un])
  from 1 2 3 4 show ?thesis
    unfolding Let_def torn_def [symmetric] late_def [symmetric] by blast
qed

text \<open>
  One scroll event, the unmount, then the frame with the probe position at 850: the pair
  is still the initial one.
\<close>

theorem late_callback_discarded_witness:
  "tracker_state (step sections_story
      (step sections_story (run sections_story mount [ScrollEvent]) Unmount)
      (AnimationFrame (scenario_window 450)))
     = (''home'', False)"
proof -
  have 1: "frameRequests (run sections_story mount [ScrollEvent]) = 1"
    by (simp add: mount_def dispatch_scroll_def throttledScroll_def)
  have 2: "tracker_state (step sections_story (run sections_story mount [ScrollEvent]) Unmount)
             = (''home'', False)"
    by (simp add: tracker_state_def mount_def dispatch_scroll_def throttledScroll_def
          unmount_def cleanup_def)
  have "tracker_state (step sections_story
            (step sections_story (run sections_story mount [ScrollEvent]) Unmount)
            (AnimationFrame (scenario_window 450)))
          = tracker_state (step sections_story (run sections_story mount [ScrollEvent]) Unmount)"
    using late_callback_discarded
      [OF 1, where secs = sections_story and w = "scenario_window 450" and evs = "[]"]
    unfolding Let_def by blast
  with 2 show ?thesis by simp
qed


section \<open>The active section is a configured section\<close>

lemma frame_callbacks_activeSection:
  "activeSection ((frame_callback secs w ^^ n) st) = activeSection st
   \<or> activeSection ((frame_callback secs w ^^ n) st) \<in> set secs"
proof (induction n)
  case 0
  then show ?case by simp
next
  case (Suc n)
  have "activeSection (frame_callback secs w ((frame_callback secs w ^^ n) st))
          = activeSection ((frame_callback secs w ^^ n) st)
         \<or> activeSection (frame_callback secs w ((frame_callback secs w ^^ n) st))
          = activeSection (handleScroll secs w ((frame_callback secs w ^^ n) st))"
    by (simp add: frame_callback_def react_update_def)
  with Suc handleScroll_activeSection_cases [of secs w "(frame_callback secs w ^^ n) st"]
  show ?case by auto
qed

lemma step_activeSection:
  "activeSection (step secs st ev) = activeSection st
   \<or> activeSection (step secs st ev) \<in> set secs"
proof (cases ev)
  case (AnimationFrame w)
  then show ?thesis
    using frame_callbacks_activeSection
      [where secs = secs and w = w and n = "frameRequests st"
         and st = "st\<lparr>frameRequests := 0\<rparr>"]
    by (simp add: animation_frame_def)
qed (auto simp: dispatch_scroll_def throttledScroll_def cleanup_def unmount_def
       react_update_def handleNavClick_def scrollToSection_def fetchArticles_def
       fetchArticles_try_def fetchArticles_catch_def fetchArticles_finally_def Let_def
       split: option.splits fetch_result.splits prod.splits)

lemma run_activeSection:
  "activeSection st \<in> set secs \<Longrightarrow> activeSection (run secs st evs) \<in> set secs"
proof (induction evs arbitrary: st)
  case Nil
  then show ?case by simp
next
  case (Cons ev evs)
  from Cons.prems step_activeSection [of secs st ev]
  have "activeSection (step secs st ev) \<in> set secs" by auto
  then show ?case by (simp add: Cons.IH)
qed

text \<open>
  C9. \<open>activeSection\<close> is a string (there is no null among its values). It starts as
  \<open>home\<close>, the first id of either section list; every event either leaves it as it was
  or stores an id of the section list; so after any sequence of events it is one of the
  configured ids.
\<close>

theorem activeSection_configured:
  "activeSection mount = hd sections_story
   \<and> activeSection mount = hd sections_classic
   \<and> activeSection (run sections_story mount evs) \<in> set sections_story
   \<and> activeSection (run sections_classic mount evs) \<in> set sections_classic
   \<and> (activeSection (step secs st ev) = activeSection st
        \<or> activeSection (step secs st ev) \<in> set secs)"
proof -
  have 1: "activeSection mount \<in> set sections_story"
    by (simp add: mount_def sections_story_def)
  have 2: "activeSection mount \<in> set sections_classic"
    by (simp add: mount_def sections_classic_def)
  show ?thesis
    using run_activeSection [OF 1, of evs] run_activeSection [OF 2, of evs]
      step_activeSection [of secs st ev]
    by (simp add: mount_def sections_story_def sections_classic_def)
qed

theorem activeSection_configured_witness:
  "activeSection (run sections_story mount
      [ScrollEvent, AnimationFrame (scenario_window 450), ScrollEvent, Unmount,
       AnimationFrame (scenario_window 2100)]) \<in> set sections_story"
  using activeSection_configured
    [where evs = "[ScrollEvent, AnimationFrame (scenario_window 450), ScrollEvent, Unmount,
       AnimationFrame (scenario_window 2100)]"]
  by blast


section \<open>Properties of scrollToSection\<close>

text \<open>
  C4, as the claim states it, fails in its last part: for an id with no element the
  function returns normally and gives the browser no command at all, so nothing is
  raised and nothing is logged.
\<close>

theorem scrollToSection_missing_counterexample:
  "getElementById (scenario_window 0) ''nonexistent'' = None
   \<and> scrollToSection (scenario_window 0) ''nonexistent'' mount = (None, mount, [])"
  by (simp add: scrollToSection_def scenario_window_def scenario_document_def)

text \<open>
  C4, amended. For an id whose element is in the document, \<open>scrollToSection\<close> gives the
  one command to scroll smoothly to \<open>offsetTop - 80\<close> and leaves the state as it is. For
  an id with no element it leaves the state as it is, gives no command, logs nothing and
  raises nothing. A click on a navigation item changes neither the active section nor the
  back-to-top flag.
\<close>

theorem scrollToSection_command:
  "(getElementById w sectionId = Some el \<longrightarrow>
      scrollToSection w sectionId st = (None, st, [ScrollTo (offsetTop el - 80) Smooth]))
   \<and> (getElementById w sectionId = None \<longrightarrow>
      scrollToSection w sectionId st = (None, st, []))
   \<and> tracker_state (step secs st (NavClick w sectionId)) = tracker_state st"
  by (auto simp: scrollToSection_def handleNavClick_def tracker_state_def react_update_def
        split: option.splits)

theorem scrollToSection_command_witness:
  "scrollToSection (scenario_window 0) ''contact'' mount = (None, mount, [ScrollTo 1520 Smooth])
   \<and> scrollToSection (scenario_window 0) ''projects'' mount = (None, mount, [])"
proof -
  have 1: "getElementById (scenario_window 0) ''contact''
             = Some \<lparr>offsetTop = 1600, offsetHeight = 800\<rparr>"
    by (simp add: scenario_window_def scenario_document_def)
  have 2: "getElementById (scenario_window 0) ''projects'' = None"
    by (simp add: scenario_window_def scenario_document_def)
  show ?thesis
    using scrollToSection_command
        [where w = "scenario_window 0" and sectionId = "''contact''" and st = mount
           and el = "\<lparr>offsetTop = 1600, offsetHeight = 800\<rparr>"]
      scrollToSection_command
        [where w = "scenario_window 0" and sectionId = "''projects''" and st = mount]
      1 2
    by simp
qed


section \<open>Properties of fetchArticles\<close>

lemma formatArticle_description_length:
  "length (description (formatArticle item)) \<le> 153"
  by (simp add: formatArticle_def substring_def)

text \<open>
  C6. For a response that parses to a value with status \<open>ok\<close> and a list of items of any
  length, \<open>fetchArticles\<close> stores the first six items in the feed's order, formatted: at
  most six articles, and the description of each (tags removed, cut to 150 code units,
  three dots appended) has at most 153 code units.
\<close>

theorem fetchArticles_truncates:
  assumes "status data = ''ok''" and "items data = Some its"
  shows "let res = fetchArticles (Parsed data) st; st' = fst (snd res)
         in fst res = None
          \<and> articles st' = map formatArticle (take 6 its)
          \<and> length (articles st') = min 6 (length its)
          \<and> (\<forall>a \<in> set (articles st'). length (description a) \<le> 153)
          \<and> \<not> articlesLoading st'"
  using assms
  by (auto simp: fetchArticles_def fetchArticles_try_def fetchArticles_finally_def Let_def
        formatArticle_description_length)

text \<open>Eight items give six articles.\<close>

theorem fetchArticles_truncates_witness:
  "map description (articles (fst (snd (fetchArticles
      (Parsed \<lparr>status = ''ok'', items = Some (replicate 8
         \<lparr>item_title = ''Post'', item_link = ''https://medium.com/p/1'',
          item_pubDate = ''2025-01-01'',
          item_description = ''<p>Hello <b>world</b></p>'', item_thumbnail = None,
          item_categories = None\<rparr>)\<rparr>) mount))))
   = replicate 6 ''Hello world...''"
proof -
  have 1: "status \<lparr>status = ''ok'', items = Some (replicate 8
         \<lparr>item_title = ''Post'', item_link = ''https://medium.com/p/1'',
          item_pubDate = ''2025-01-01'',
          item_description = ''<p>Hello <b>world</b></p>'', item_thumbnail = None,
          item_categories = None\<rparr>)\<rparr> = ''ok''"
    by simp
  have 2: "items \<lparr>status = ''ok'', items = Some (replicate 8
         \<lparr>item_title = ''Post'', item_link = ''https://medium.com/p/1'',
          item_pubDate = ''2025-01-01'',
          item_description = ''<p>Hello <b>world</b></p>'', item_thumbnail = None,
          item_categories = None\<rparr>)\<rparr> = Some (replicate 8
         \<lparr>item_title = ''Post'', item_link = ''https://medium.com/p/1'',
          item_pubDate = ''2025-01-01'',
          item_description = ''<p>Hello <b>world</b></p>'', item_thumbnail = None,
          item_categories = None\<rparr>)"
    by simp
  show ?thesis
    using fetchArticles_truncates [OF 1 2, of mount]
    by (simp add: Let_def formatArticle_def substring_def)
qed

text \<open>
  C7. When \<open>fetch\<close> rejects or the body does not parse, \<open>fetchArticles\<close> returns
  normally: the error is caught and logged with \<open>console.error\<close>, the only other command
  is the one request (there is no second one), the articles are left as they were and the
  loading flag is cleared. Called on the mounted component, as the source does, the list
  stays empty and the grid shows the empty state.
\<close>

theorem fetchArticles_failure:
  assumes "r = Rejected e \<or> r = Unparsable e"
  shows "fetchArticles r st =
           (None, st\<lparr>articlesLoading := False\<rparr>,
            [HttpGet feed_url, ConsoleError ''Failed to fetch articles:'' e])
         \<and> articles (fst (snd (fetchArticles r mount))) = []
         \<and> articles_grid (fst (snd (fetchArticles r mount))) = ComingSoon"
  using assms
  by (auto simp: fetchArticles_def fetchArticles_try_def fetchArticles_catch_def
        fetchArticles_finally_def Let_def articles_grid_def mount_def)

theorem fetchArticles_failure_witness:
  "fetchArticles (Rejected (TypeError ''Failed to fetch'')) mount =
     (None, mount\<lparr>articlesLoading := False\<rparr>,
      [HttpGet feed_url,
       ConsoleError ''Failed to fetch articles:'' (TypeError ''Failed to fetch'')])
   \<and> fetchArticles (Unparsable (SyntaxError ''Unexpected token'')) mount =
     (None, mount\<lparr>articlesLoading := False\<rparr>,
      [HttpGet feed_url,
       ConsoleError ''Failed to fetch articles:'' (SyntaxError ''Unexpected token'')])"
proof -
  have 1: "Rejected (TypeError ''Failed to fetch'') = Rejected (TypeError ''Failed to fetch'')
           \<or> Rejected (TypeError ''Failed to fetch'') = Unparsable (TypeError ''Failed to fetch'')"
    by simp
  have 2: "Unparsable (SyntaxError ''Unexpected token'') = Rejected (SyntaxError ''Unexpected token'')
           \<or> Unparsable (SyntaxError ''Unexpected token'')
               = Unparsable (SyntaxError ''Unexpected token'')"
    by simp
  show ?thesis
    using fetchArticles_failure [OF 1, of mount] fetchArticles_failure [OF 2, of mount]
    by simp
qed


section \<open>Properties of the date utilities\<close>

text \<open>
  C10, as the claim states it, fails for a start year so far back that the difference of
  the years is no binary64 value. In December 2025, for the start year \<open>-2^53\<close> and the
  start month 10, the formula gives 9007199254743017; the subtraction rounds it to the
  even neighbour and the function returns 9007199254743016.
\<close>

theorem calculateYearsOfExperience_rounding_counterexample:
  "fst (calculateYearsOfExperience module_cache
          \<lparr>now_ms = 1766000000000, fullYear = 2025, monthIndex = 11\<rparr> (- (2 ^ 53)) (Some 10))
     = 9007199254743016
   \<and> max 0 (fst (fst (getCachedDate module_cache
                      \<lparr>now_ms = 1766000000000, fullYear = 2025, monthIndex = 11\<rparr>))
            - (- (2 ^ 53))
            - (if snd (fst (getCachedDate module_cache
                      \<lparr>now_ms = 1766000000000, fullYear = 2025, monthIndex = 11\<rparr>)) < 10
               then 1 else 0))
     = 9007199254743017"
  by code_simp

text \<open>
  C10, amended. For every integer \<open>startYear\<close> that is less than \<open>2^53\<close> years away from
  the current year, and every \<open>startMonth\<close> (those from 1 to 12 among them),
  \<open>calculateYearsOfExperience\<close> returns
  \<open>max 0 (currentYear - startYear - (if currentMonth < startMonth then 1 else 0))\<close>,
  with the year and month that \<open>getCachedDate\<close> gives. For every \<open>startYear\<close> the result
  is never negative.
\<close>

theorem calculateYearsOfExperience_value:
  "(\<bar>fst (fst (getCachedDate c clk)) - startYear\<bar> < 2 ^ 53 \<longrightarrow>
      fst (calculateYearsOfExperience c clk startYear (Some startMonth)) =
        max 0 (fst (fst (getCachedDate c clk)) - startYear
               - (if snd (fst (getCachedDate c clk)) < startMonth then 1 else 0)))
   \<and> 0 \<le> fst (calculateYearsOfExperience c clk startYear (Some startMonth))"
proof -
  obtain cy cm c' where g: "getCachedDate c clk = ((cy, cm), c')"
    by (metis prod.exhaust)
  have exact: "fst (calculateYearsOfExperience c clk startYear (Some startMonth)) =
      max 0 (cy - startYear - (if cm < startMonth then 1 else 0))"
    if "\<bar>cy - startYear\<bar> < 2 ^ 53"
  proof -
    from that have 1: "num64 (cy - startYear) = cy - startYear"
      by (simp add: num64_exact)
    from that have 2: "num64 (cy - startYear - 1) = cy - startYear - 1"
      by (simp add: num64_exact)
    show ?thesis
      by (simp add: calculateYearsOfExperience_def g Let_def 1 2)
  qed
  have "0 \<le> fst (calculateYearsOfExperience c clk startYear (Some startMonth))"
    by (simp add: calculateYearsOfExperience_def g Let_def)
  with exact show ?thesis
    by (simp add: g)
qed

text \<open>
  The example of the source's comment (October 2019, read in December 2025), and a start
  in the future.
\<close>

theorem calculateYearsOfExperience_value_witness:
  "fst (calculateYearsOfExperience module_cache
          \<lparr>now_ms = 1766000000000, fullYear = 2025, monthIndex = 11\<rparr> 2019 (Some 10)) = 6
   \<and> fst (calculateYearsOfExperience module_cache
          \<lparr>now_ms = 1766000000000, fullYear = 2025, monthIndex = 11\<rparr> 2031 (Some 3)) = 0"
proof -
  have g: "getCachedDate module_cache \<lparr>now_ms = 1766000000000, fullYear = 2025, monthIndex = 11\<rparr>
             = ((2025, 12), \<lparr>cachedYear = Some 2025, cachedMonth = Some 12,
                              lastCheck = 1766000000000\<rparr>)"
    by (simp add: getCachedDate_def module_cache_def refreshCache_def Let_def num64_exact)
  show ?thesis
    using calculateYearsOfExperience_value
        [of module_cache "\<lparr>now_ms = 1766000000000, fullYear = 2025, monthIndex = 11\<rparr>" 2019 10]
      calculateYearsOfExperience_value
        [of module_cache "\<lparr>now_ms = 1766000000000, fullYear = 2025, monthIndex = 11\<rparr>" 2031 3]
    by (simp add: g)
qed

end
